theory Spec2Isabelle
  imports Complex_Main "HOL-Library.AList"
begin

section \<open>JavaScript numbers\<close>

text \<open>
  The FAIR simulator is a TypeScript front end; every quantity is a JavaScript
  \<open>number\<close>. Scenario factors are finite numbers typed into form fields, and sums and
  products of finite numbers are modelled as \<open>real\<close> arithmetic (rounding and overflow
  of IEEE doubles are not modelled). Where the code divides by a possibly zero divisor
  or takes a logarithm, the result can be \<open>Infinity\<close>, \<open>-Infinity\<close> or \<open>NaN\<close>; those
  places use \<open>jsnum\<close>, with the IEEE rules for the special values written out.
  Signed zeros are not distinguished: a zero divisor is taken as \<open>+0\<close>, which is what
  \<open>100 - 100\<close> evaluates to.
\<close>

datatype jsnum = Num real | PosInf | NegInf | NaN

fun js_neg :: "jsnum \<Rightarrow> jsnum" where
  "js_neg (Num a) = Num (- a)"
| "js_neg PosInf = NegInf"
| "js_neg NegInf = PosInf"
| "js_neg NaN = NaN"

fun js_plus :: "jsnum \<Rightarrow> jsnum \<Rightarrow> jsnum" where
  "js_plus NaN y = NaN"
| "js_plus x NaN = NaN"
| "js_plus (Num a) (Num b) = Num (a + b)"
| "js_plus PosInf NegInf = NaN"
| "js_plus NegInf PosInf = NaN"
| "js_plus PosInf y = PosInf"
| "js_plus NegInf y = NegInf"
| "js_plus (Num a) y = y"

fun js_times :: "jsnum \<Rightarrow> jsnum \<Rightarrow> jsnum" where
  "js_times NaN y = NaN"
| "js_times x NaN = NaN"
| "js_times (Num a) (Num b) = Num (a * b)"
| "js_times PosInf (Num b) = (if 0 < b then PosInf else if b < 0 then NegInf else NaN)"
| "js_times NegInf (Num b) = (if 0 < b then NegInf else if b < 0 then PosInf else NaN)"
| "js_times (Num a) PosInf = (if 0 < a then PosInf else if a < 0 then NegInf else NaN)"
| "js_times (Num a) NegInf = (if 0 < a then NegInf else if a < 0 then PosInf else NaN)"
| "js_times PosInf PosInf = PosInf"
| "js_times NegInf NegInf = PosInf"
| "js_times PosInf NegInf = NegInf"
| "js_times NegInf PosInf = NegInf"

fun js_divide :: "jsnum \<Rightarrow> jsnum \<Rightarrow> jsnum" where
  "js_divide NaN y = NaN"
| "js_divide x NaN = NaN"
| "js_divide (Num a) (Num b) =
     (if b \<noteq> 0 then Num (a / b)
      else if 0 < a then PosInf else if a < 0 then NegInf else NaN)"
| "js_divide (Num a) y = Num 0"
| "js_divide PosInf (Num b) = (if 0 \<le> b then PosInf else NegInf)"
| "js_divide NegInf (Num b) = (if 0 \<le> b then NegInf else PosInf)"
| "js_divide x y = NaN"

fun js_exp :: "jsnum \<Rightarrow> jsnum" where
  "js_exp (Num a) = Num (exp a)"
| "js_exp PosInf = PosInf"
| "js_exp NegInf = Num 0"
| "js_exp NaN = NaN"

fun js_log :: "jsnum \<Rightarrow> jsnum" where
  "js_log (Num a) = (if 0 < a then Num (ln a) else if a = 0 then NegInf else NaN)"
| "js_log PosInf = PosInf"
| "js_log NegInf = NaN"
| "js_log NaN = NaN"

text \<open>\<open>Math.min\<close> and \<open>Math.max\<close> of two arguments: \<open>NaN\<close> if either is \<open>NaN\<close>.\<close>

fun js_min :: "jsnum \<Rightarrow> jsnum \<Rightarrow> jsnum" where
  "js_min NaN y = NaN"
| "js_min x NaN = NaN"
| "js_min NegInf y = NegInf"
| "js_min x NegInf = NegInf"
| "js_min PosInf y = y"
| "js_min x PosInf = x"
| "js_min (Num a) (Num b) = Num (min a b)"

fun js_max :: "jsnum \<Rightarrow> jsnum \<Rightarrow> jsnum" where
  "js_max NaN y = NaN"
| "js_max x NaN = NaN"
| "js_max PosInf y = PosInf"
| "js_max x PosInf = PosInf"
| "js_max NegInf y = y"
| "js_max x NegInf = x"
| "js_max (Num a) (Num b) = Num (max a b)"

text \<open>The comparison \<open>x > y\<close>: false whenever an operand is \<open>NaN\<close>.\<close>

fun js_gt :: "jsnum \<Rightarrow> jsnum \<Rightarrow> bool" where
  "js_gt NaN y = False"
| "js_gt x NaN = False"
| "js_gt (Num a) (Num b) = (b < a)"
| "js_gt PosInf PosInf = False"
| "js_gt PosInf y = True"
| "js_gt x NegInf = (x \<noteq> NegInf)"
| "js_gt x y = False"

text \<open>\<open>x || 0\<close> on a number: \<open>0\<close> when \<open>x\<close> is falsy (zero), else \<open>x\<close>.\<close>

definition or_zero :: "real \<Rightarrow> real" where
  "or_zero x = (if x = 0 then 0 else x)"

text \<open>
  \<open>xs[i]\<close> for a computed index: the element, or \<open>undefined\<close> (here \<open>None\<close>) when the
  index is not below the length.
\<close>

definition js_index :: "'a list \<Rightarrow> nat \<Rightarrow> 'a option" where
  "js_index xs i = (if i < length xs then Some (xs ! i) else None)"

section \<open>Scenarios and the client-side calculation\<close>

text \<open>
  \<open>RiskScenario\<close> (App.tsx), restricted to the identifier and the nine numeric FAIR
  factors; name, description, industry, controls and dates take no part in any
  calculation.
\<close>

record RiskScenario =
  id_scenario :: string
  threatEventFrequency :: real
  susceptibility :: real
  productivity :: real
  response :: real
  replacement :: real
  fines :: real
  competitiveAdvantage :: real
  reputation :: real
  slef :: real

text \<open>\<open>ScenarioCalculations\<close> (Dashboard.tsx) and the result of \<open>calculateClientSide\<close>.\<close>

record ScenarioCalculations =
  ale :: real
  lef :: real
  slee :: real

record ClientSideResult = ScenarioCalculations +
  ale_p10 :: real
  ale_p50 :: real
  ale_p90 :: real
  ale_p95 :: real
  ale_p99 :: real

text \<open>\<open>calculateClientSide\<close> (hooks/useFairCalculation.ts).\<close>

definition calculateClientSide :: "RiskScenario \<Rightarrow> ClientSideResult" where
  "calculateClientSide scenario =
     (let lef_v = threatEventFrequency scenario * (susceptibility scenario / 100);
          primaryLoss = productivity scenario + response scenario + replacement scenario;
          secondaryLoss = fines scenario + competitiveAdvantage scenario + reputation scenario;
          slee_v = primaryLoss + (secondaryLoss * (slef scenario / 100));
          ale_v = lef_v * slee_v
      in \<lparr> ale = ale_v, lef = lef_v, slee = slee_v,
           ale_p10 = ale_v * 0.3,
           ale_p50 = ale_v,
           ale_p90 = ale_v * 2.5,
           ale_p95 = ale_v * 3.5,
           ale_p99 = ale_v * 5.0 \<rparr>)"

section \<open>Dashboard: client-side portfolio metrics\<close>

text \<open>
  \<open>calc\<close> is a JavaScript object keyed by scenario id, filled by assignment in a
  \<open>forEach\<close>: assigning to a key that is present replaces its value in place, a new
  key is added at the end. That is \<open>AList.update\<close> on an association list.
  (JavaScript enumerates integer-like keys in numeric order; the order of \<open>Object.values\<close>
  only feeds sums, which do not depend on it.)
\<close>

definition calc_entry :: "RiskScenario \<Rightarrow> ScenarioCalculations" where
  "calc_entry scenario =
     (let result = calculateClientSide scenario
      in \<lparr> ale = ale result, lef = lef result, slee = slee result \<rparr>)"

definition build_calc :: "RiskScenario list \<Rightarrow> (string \<times> ScenarioCalculations) list" where
  "build_calc scenarios =
     fold (\<lambda>scenario calc. AList.update (id_scenario scenario) (calc_entry scenario) calc)
       scenarios []"

text \<open>\<open>Object.values(calc)\<close>.\<close>

definition object_values :: "('k \<times> 'v) list \<Rightarrow> 'v list" where
  "object_values calc = map snd calc"

text \<open>\<open>calc[s.id]?.ale || 0\<close>.\<close>

definition calc_ale_or_zero :: "(string \<times> ScenarioCalculations) list \<Rightarrow> RiskScenario \<Rightarrow> real" where
  "calc_ale_or_zero calc s =
     (case map_of calc (id_scenario s) of None \<Rightarrow> 0 | Some c \<Rightarrow> or_zero (ale c))"

text \<open>\<open>Math.max(...ales)\<close>: the maximum of the arguments, \<open>-Infinity\<close> for none.\<close>

definition Math_max :: "real list \<Rightarrow> jsnum" where
  "Math_max xs = fold (\<lambda>x acc. js_max acc (Num x)) xs NegInf"

text \<open>\<open>ales.indexOf(maxALE)\<close>: the first index holding the value, \<open>None\<close> for \<open>-1\<close>.\<close>

fun indexOf_from :: "nat \<Rightarrow> real list \<Rightarrow> jsnum \<Rightarrow> nat option" where
  "indexOf_from i [] v = None"
| "indexOf_from i (x # xs) v = (if Num x = v then Some i else indexOf_from (Suc i) xs v)"

definition indexOf :: "real list \<Rightarrow> jsnum \<Rightarrow> nat option" where
  "indexOf xs v = indexOf_from 0 xs v"

text \<open>
  The object handed to \<open>setPortfolioMetrics\<close>, without the three per-scenario
  dictionaries (\<open>scenario_ales\<close>, \<open>scenario_lefs\<close>, \<open>scenario_lms\<close>).
\<close>

record PortfolioMetrics =
  total_ale :: real
  expected_events_per_year :: real
  weighted_average_lm :: real
  top_scenario_share :: jsnum
  top_scenario_id :: string

text \<open>
  \<open>calculateClientSideMetrics\<close> (Dashboard.tsx), the path taken when the risk service
  does not answer. \<open>reduce\<close> is a left fold from 0; \<open>scenarios[maxIndex]?.id || ''\<close>
  is the empty string when there is no such scenario.
\<close>

definition calculateClientSideMetrics :: "RiskScenario list \<Rightarrow> PortfolioMetrics" where
  "calculateClientSideMetrics scenarios =
     (let calc = build_calc scenarios;
          totalALE = foldl (\<lambda>sum c. sum + ale c) 0 (object_values calc);
          totalLEF = foldl (\<lambda>sum c. sum + lef c) 0 (object_values calc);
          weightedAvgLM =
            (if 0 < totalLEF
             then foldl (\<lambda>sum c. sum + (lef c * slee c)) 0 (object_values calc) / totalLEF
             else 0);
          ales = map (calc_ale_or_zero calc) scenarios;
          maxALE = Math_max ales;
          maxIndex = indexOf ales maxALE;
          topScenarioShare =
            (if 0 < totalALE
             then js_times (js_divide maxALE (Num totalALE)) (Num 100)
             else Num 0);
          topScenarioId =
            (case maxIndex of
               None \<Rightarrow> []
             | Some i \<Rightarrow> (case js_index scenarios i of
                   None \<Rightarrow> []
                 | Some s \<Rightarrow> id_scenario s))
      in \<lparr> total_ale = totalALE,
           expected_events_per_year = totalLEF,
           weighted_average_lm = weightedAvgLM,
           top_scenario_share = topScenarioShare,
           top_scenario_id = topScenarioId \<rparr>)"

section \<open>AggregatedMetrics: what the dashboard shows\<close>

text \<open>
  A displayed value is either a literal text or the template
  \<^verbatim>\<open>$${x.toFixed(0)}K\<close> applied to a number \<open>x\<close>; the digits that \<open>toFixed\<close> prints are
  not modelled.
\<close>

datatype display = Text string | DollarsK real

definition zeroLEF :: "PortfolioMetrics \<Rightarrow> bool" where
  "zeroLEF portfolioMetrics = (expected_events_per_year portfolioMetrics = 0)"

definition highConcentration :: "PortfolioMetrics \<Rightarrow> bool" where
  "highConcentration portfolioMetrics = js_gt (top_scenario_share portfolioMetrics) (Num 70)"

text \<open>The \<open>value\<close> of the metrics card labelled "Average Loss Magnitude".\<close>

definition averageLM_card_value :: "PortfolioMetrics \<Rightarrow> display" where
  "averageLM_card_value portfolioMetrics =
     (if zeroLEF portfolioMetrics then Text ''N/A''
      else DollarsK (weighted_average_lm portfolioMetrics / 1000))"

text \<open>
  The value printed after "Average LM (per event):" in the text that \<open>copyFormulas\<close>
  puts on the clipboard.
\<close>

definition copyFormulas_averageLM :: "PortfolioMetrics \<Rightarrow> display" where
  "copyFormulas_averageLM portfolioMetrics =
     DollarsK (weighted_average_lm portfolioMetrics / 1000)"

section \<open>Percentile triples: RangeInput and the scenario wizard\<close>

record PercentileTriple =
  p10 :: real
  p50 :: real
  p90 :: real

text \<open>
  \<open>RangeInput.handleBlur\<close>: the triple handed to \<open>onChange\<close> when an input field loses
  focus. There is no rejecting branch.
\<close>

definition handleBlur :: "PercentileTriple \<Rightarrow> PercentileTriple" where
  "handleBlur tempValues =
     \<lparr> p10 = min (p10 tempValues) (p50 tempValues),
       p50 = p50 tempValues,
       p90 = max (p50 tempValues) (p90 tempValues) \<rparr>"

text \<open>
  \<open>ScenarioCreation.isStepComplete('lef')\<close>, on the TEF and susceptibility triples of the
  form data; the wizard's Next button needs it to be true.
\<close>

definition isStepComplete_lef :: "PercentileTriple \<Rightarrow> PercentileTriple \<Rightarrow> bool" where
  "isStepComplete_lef tef susc =
     (0 < p50 tef \<and> 0 < p50 susc \<and>
      0 \<le> p10 tef \<and> 0 < p90 tef \<and>
      0 \<le> p10 susc \<and> 0 < p90 susc \<and>
      p10 tef \<le> p50 tef \<and> p50 tef \<le> p90 tef \<and>
      p10 susc \<le> p50 susc \<and> p50 susc \<le> p90 susc)"

text \<open>The invariant the specification asks of a triple.\<close>

definition monotone_triple :: "PercentileTriple \<Rightarrow> bool" where
  "monotone_triple t = (p10 t \<le> p50 t \<and> p50 t \<le> p90 t)"

text \<open>
  \<open>RangeEstimationInput.validateRange\<close>, of the input component the wizard mounts for
  every triple: the list of errors it shows in red under the fields. The constructors
  stand for its messages ("10th percentile must be at most 50th percentile", "50th
  percentile must be at most 90th percentile", "Probabilities must be at least 0%",
  "Probabilities must be at most 100%", "10th percentile must be at least min", "90th
  percentile must be at most max"). The component hands every typed value on to
  \<open>onChange\<close> unchanged.
\<close>

datatype RangeError =
    P10_above_P50 | P50_above_P90 | Probability_below_0 | Probability_above_100
  | P10_below_min | P90_above_max

definition validateRange_errors ::
  "bool \<Rightarrow> real option \<Rightarrow> real option \<Rightarrow> PercentileTriple \<Rightarrow> RangeError list" where
  "validateRange_errors isProbability min_v max_v t =
     (if p10 t > p50 t then [P10_above_P50] else [])
     @ (if p50 t > p90 t then [P50_above_P90] else [])
     @ (if isProbability
        then (if p10 t < 0 \<or> p50 t < 0 \<or> p90 t < 0 then [Probability_below_0] else [])
             @ (if p10 t > 100 \<or> p50 t > 100 \<or> p90 t > 100 then [Probability_above_100] else [])
        else [])
     @ (case min_v of None \<Rightarrow> [] | Some m \<Rightarrow> if p10 t < m then [P10_below_min] else [])
     @ (case max_v of None \<Rightarrow> [] | Some m \<Rightarrow> if p90 t > m then [P90_above_max] else [])"

text \<open>
  The form data of \<open>ScenarioCreation\<close>, restricted to the FAIR factors. The three fields
  \<open>xP10\<close>, \<open>xP50\<close>, \<open>xP90\<close> of a factor \<open>x\<close> are grouped into the triple \<open>xP\<close>; the
  point fields \<open>productivity\<close>, ..., \<open>slef\<close> carry the prefix \<open>form_\<close>.
\<close>

record FormData =
  tefP :: PercentileTriple
  susceptibilityP :: PercentileTriple
  productivityP :: PercentileTriple
  responseP :: PercentileTriple
  replacementP :: PercentileTriple
  finesP :: PercentileTriple
  competitiveAdvantageP :: PercentileTriple
  reputationP :: PercentileTriple
  slefP :: PercentileTriple
  form_productivity :: real
  form_response :: real
  form_replacement :: real
  form_fines :: real
  form_competitiveAdvantage :: real
  form_reputation :: real
  form_slef :: real

text \<open>
  The \<open>onChange\<close> handler that \<open>LMStep\<close> gives to the productivity input: it stores the
  triple as typed and syncs the median to the point field.
\<close>

definition onChange_productivity :: "FormData \<Rightarrow> real \<Rightarrow> real \<Rightarrow> real \<Rightarrow> FormData" where
  "onChange_productivity formData a b c =
     formData\<lparr> productivityP := \<lparr> p10 = a, p50 = b, p90 = c \<rparr>, form_productivity := b \<rparr>"

text \<open>\<open>ScenarioCreation.calculateLM\<close> and \<open>isStepComplete('lm')\<close>.\<close>

definition calculateLM_SC :: "FormData \<Rightarrow> real" where
  "calculateLM_SC formData =
     (let primaryLoss = form_productivity formData + form_response formData
                        + form_replacement formData;
          secondaryLoss = form_fines formData + form_competitiveAdvantage formData
                          + form_reputation formData;
          slefProbability = form_slef formData / 100
      in primaryLoss + secondaryLoss * slefProbability)"

definition isStepComplete_lm :: "FormData \<Rightarrow> bool" where
  "isStepComplete_lm formData = (0 < calculateLM_SC formData)"

text \<open>
  \<open>handleSubmit\<close> followed by \<open>App.handleCreateScenario\<close>, which adds the id: the scenario
  is built from the medians and the point fields alone.
\<close>

definition handleSubmit :: "string \<Rightarrow> FormData \<Rightarrow> RiskScenario" where
  "handleSubmit new_id formData =
     \<lparr> id_scenario = new_id,
       threatEventFrequency = p50 (tefP formData),
       susceptibility = p50 (susceptibilityP formData),
       productivity = form_productivity formData,
       response = form_response formData,
       replacement = form_replacement formData,
       fines = form_fines formData,
       competitiveAdvantage = form_competitiveAdvantage formData,
       reputation = form_reputation formData,
       slef = form_slef formData \<rparr>"

text \<open>
  The productivity triple of the request that the dashboard sends for a scenario:
  \<open>scenarioToCalculationRequest(scenario)\<close> with \<open>useRanges\<close> left at \<open>false\<close>; \<open>None\<close> is
  \<open>undefined\<close>, for a productivity of zero.
\<close>

definition request_productivity :: "RiskScenario \<Rightarrow> PercentileTriple option" where
  "request_productivity scenario =
     (if productivity scenario \<noteq> 0
      then Some \<lparr> p10 = productivity scenario * 0.6,
                  p50 = productivity scenario,
                  p90 = productivity scenario * 2.5 \<rparr>
      else None)"

section \<open>ScenarioDetail: the client-side Monte Carlo\<close>

text \<open>
  Each pass of the loop in \<open>runMonteCarloSimulation\<close> calls \<open>Math.random()\<close> five
  times. The five results of one pass, in call order, are a \<open>Draws\<close> record; the
  simulation takes the list of them, one per pass, so its length is the number of
  \<open>simulations\<close>. \<open>Math.random()\<close> returns a number in \<open>[0, 1)\<close>.
\<close>

record Draws =
  u_tef :: real
  u_susc :: real
  u_primary :: real
  u_secondary :: real
  u_slef :: real

definition valid_draws :: "Draws \<Rightarrow> bool" where
  "valid_draws d =
     (0 \<le> u_tef d \<and> u_tef d < 1 \<and> 0 \<le> u_susc d \<and> u_susc d < 1 \<and>
      0 \<le> u_primary d \<and> u_primary d < 1 \<and> 0 \<le> u_secondary d \<and> u_secondary d < 1 \<and>
      0 \<le> u_slef d \<and> u_slef d < 1)"

definition calculatePrimaryLoss_SD :: "RiskScenario \<Rightarrow> real" where
  "calculatePrimaryLoss_SD s = productivity s + response s + replacement s"

definition calculateSecondaryLoss_SD :: "RiskScenario \<Rightarrow> real" where
  "calculateSecondaryLoss_SD s = fines s + competitiveAdvantage s + reputation s"

definition calculateSLEE :: "RiskScenario \<Rightarrow> real" where
  "calculateSLEE s =
     (let primaryLoss = calculatePrimaryLoss_SD s;
          secondaryLoss = calculateSecondaryLoss_SD s
      in primaryLoss + (secondaryLoss * (slef s / 100)))"

definition calculateLEF_SD :: "RiskScenario \<Rightarrow> real" where
  "calculateLEF_SD s = threatEventFrequency s * (susceptibility s / 100)"

definition calculateALE_SD :: "RiskScenario \<Rightarrow> real" where
  "calculateALE_SD s = calculateLEF_SD s * calculateSLEE s"

text \<open>The locals of one pass of the loop, in the order of the source.\<close>

definition tefVariation_SD :: "RiskScenario \<Rightarrow> Draws \<Rightarrow> real" where
  "tefVariation_SD s d = threatEventFrequency s * (0.8 + u_tef d * 0.4)"

definition suscVariation_SD :: "RiskScenario \<Rightarrow> Draws \<Rightarrow> real" where
  "suscVariation_SD s d = susceptibility s * (0.8 + u_susc d * 0.4)"

definition primaryVariation_SD :: "RiskScenario \<Rightarrow> Draws \<Rightarrow> real" where
  "primaryVariation_SD s d = calculatePrimaryLoss_SD s * (0.8 + u_primary d * 0.4)"

definition secondaryVariation_SD :: "RiskScenario \<Rightarrow> Draws \<Rightarrow> real" where
  "secondaryVariation_SD s d = calculateSecondaryLoss_SD s * (0.8 + u_secondary d * 0.4)"

definition slefVariation_SD :: "RiskScenario \<Rightarrow> Draws \<Rightarrow> real" where
  "slefVariation_SD s d = slef s * (0.8 + u_slef d * 0.4)"

definition iteration_lef_SD :: "RiskScenario \<Rightarrow> Draws \<Rightarrow> real" where
  "iteration_lef_SD s d = tefVariation_SD s d * (suscVariation_SD s d / 100)"

definition iteration_slee_SD :: "RiskScenario \<Rightarrow> Draws \<Rightarrow> real" where
  "iteration_slee_SD s d =
     primaryVariation_SD s d + (secondaryVariation_SD s d * (slefVariation_SD s d / 100))"

definition iteration_ale_SD :: "RiskScenario \<Rightarrow> Draws \<Rightarrow> real" where
  "iteration_ale_SD s d = iteration_lef_SD s d * iteration_slee_SD s d"

text \<open>
  \<open>runMonteCarloSimulation\<close>: the per-pass ALE values, sorted by \<open>(a, b) => b - a\<close>,
  that is in descending order.
\<close>

definition runMonteCarloSimulation :: "RiskScenario \<Rightarrow> Draws list \<Rightarrow> real list" where
  "runMonteCarloSimulation s ds = rev (sort (map (iteration_ale_SD s) ds))"

text \<open>
  The percentiles ScenarioDetail reads from the descending array:
  \<open>results[Math.floor(results.length * 0.5)]\<close>, \<open>... * 0.1\<close> and \<open>... * 0.01\<close>.
\<close>

definition detail_p50 :: "real list \<Rightarrow> real option" where
  "detail_p50 results = js_index results (nat \<lfloor>real (length results) * 0.5\<rfloor>)"

definition detail_p90 :: "real list \<Rightarrow> real option" where
  "detail_p90 results = js_index results (nat \<lfloor>real (length results) * 0.1\<rfloor>)"

definition detail_p99 :: "real list \<Rightarrow> real option" where
  "detail_p99 results = js_index results (nat \<lfloor>real (length results) * 0.01\<rfloor>)"

text \<open>
  The value ScenarioDetail shows as "Mean (ALE)" beside these percentiles is its constant
  \<open>ale = calculateALE(editedScenario)\<close>.
\<close>

definition detail_mean :: "RiskScenario \<Rightarrow> real" where
  "detail_mean s = calculateALE_SD s"

text \<open>
  \<open>generateLEC\<close> walks the descending array in steps of \<open>Math.floor(results.length / 50)\<close>
  and pushes one point per visit: the exceedance probability \<open>(i / results.length) * 100\<close>
  (its formatting by \<open>toFixed(1)\<close> is not modelled) and the loss \<open>Math.round(results[i])\<close>.
  With fewer than 50 results the step is 0 and the index never advances, so the function
  is partial: \<open>None\<close> stands for a call that does not return.
\<close>

record LecPoint =
  probability :: real
  loss :: int

partial_function (option) generateLEC_loop ::
  "real list \<Rightarrow> nat \<Rightarrow> nat \<Rightarrow> LecPoint list \<Rightarrow> LecPoint list option" where
  "generateLEC_loop results step i lecData =
     (if i < length results
      then generateLEC_loop results step (i + step)
             (lecData @ [\<lparr> probability = (real i / real (length results)) * 100,
                          loss = round (results ! i) \<rparr>])
      else Some lecData)"

definition generateLEC :: "real list \<Rightarrow> LecPoint list option" where
  "generateLEC results =
     (let step = nat \<lfloor>real (length results) / 50\<rfloor>
      in generateLEC_loop results step 0 [])"

text \<open>
  The body of the component, in its order: \<open>lecData = generateLEC()\<close> runs a first
  simulation and must return before \<open>ale\<close> and the percentiles of a second simulation are
  computed. Both simulations make \<open>simulations\<close> passes; \<open>ds_lec\<close> and \<open>ds\<close> are their
  draws.
\<close>

record DetailReport =
  report_lecData :: "LecPoint list"
  report_mean :: real
  report_p50 :: "real option"
  report_p90 :: "real option"
  report_p99 :: "real option"

definition scenarioDetail_report ::
  "RiskScenario \<Rightarrow> Draws list \<Rightarrow> Draws list \<Rightarrow> DetailReport option" where
  "scenarioDetail_report s ds_lec ds =
     (case generateLEC (runMonteCarloSimulation s ds_lec) of
        None \<Rightarrow> None
      | Some lecData \<Rightarrow>
          (let results = runMonteCarloSimulation s ds
           in Some \<lparr> report_lecData = lecData,
                     report_mean = detail_mean s,
                     report_p50 = detail_p50 results,
                     report_p90 = detail_p90 results,
                     report_p99 = detail_p99 results \<rparr>))"

section \<open>SensitivityAnalysis\<close>

datatype FAIRFactor =
    ThreatEventFrequency | Susceptibility | Productivity | Response | Replacement
  | Fines | CompetitiveAdvantage | Reputation | Slef

datatype AnalysisMode = Local | Global

text \<open>\<open>scenario[factor] as number\<close>.\<close>

fun factor_value :: "RiskScenario \<Rightarrow> FAIRFactor \<Rightarrow> real" where
  "factor_value s ThreatEventFrequency = threatEventFrequency s"
| "factor_value s Susceptibility = susceptibility s"
| "factor_value s Productivity = productivity s"
| "factor_value s Response = response s"
| "factor_value s Replacement = replacement s"
| "factor_value s Fines = fines s"
| "factor_value s CompetitiveAdvantage = competitiveAdvantage s"
| "factor_value s Reputation = reputation s"
| "factor_value s Slef = slef s"

definition calculatePrimaryLoss_SA :: "RiskScenario \<Rightarrow> real" where
  "calculatePrimaryLoss_SA s =
     or_zero (productivity s) + or_zero (response s) + or_zero (replacement s)"

definition calculateSecondaryLoss_SA :: "RiskScenario \<Rightarrow> real" where
  "calculateSecondaryLoss_SA s =
     or_zero (fines s) + or_zero (competitiveAdvantage s) + or_zero (reputation s)"

definition calculateLM :: "real \<Rightarrow> real \<Rightarrow> real \<Rightarrow> real" where
  "calculateLM primaryLoss secondaryLoss slef_v = primaryLoss + (secondaryLoss * (slef_v / 100))"

definition calculateLEF_SA :: "real \<Rightarrow> real \<Rightarrow> real" where
  "calculateLEF_SA tef susc = tef * (susc / 100)"

definition calculateALE_SA :: "real \<Rightarrow> real \<Rightarrow> real" where
  "calculateALE_SA lef_v slee_v = lef_v * slee_v"

text \<open>The component's constant \<open>baselineALE\<close>, as a function of the scenario.\<close>

definition baselineALE :: "RiskScenario \<Rightarrow> real" where
  "baselineALE scenario =
     calculateALE_SA
       (calculateLEF_SA (threatEventFrequency scenario) (susceptibility scenario))
       (calculateLM (calculatePrimaryLoss_SA scenario) (calculateSecondaryLoss_SA scenario)
          (slef scenario))"

text \<open>\<open>logit\<close> and \<open>invLogit\<close>, operation by operation.\<close>

definition logit :: "real \<Rightarrow> jsnum" where
  "logit p = js_log (js_divide (Num p) (Num (100 - p)))"

definition invLogit :: "jsnum \<Rightarrow> jsnum" where
  "invLogit x = js_divide (Num 100) (js_plus (Num 1) (js_exp (js_neg x)))"

text \<open>One pass of the loop of \<open>runMonteCarloForPoint\<close>.\<close>

definition iteration_ale_SA :: "RiskScenario \<Rightarrow> Draws \<Rightarrow> real" where
  "iteration_ale_SA testScenario d =
     (let tefVariation = or_zero (threatEventFrequency testScenario) * (0.8 + u_tef d * 0.4);
          suscVariation = or_zero (susceptibility testScenario) * (0.8 + u_susc d * 0.4);
          primaryVariation = calculatePrimaryLoss_SA testScenario * (0.8 + u_primary d * 0.4);
          secondaryVariation =
            calculateSecondaryLoss_SA testScenario * (0.8 + u_secondary d * 0.4);
          slefVariation = or_zero (slef testScenario) * (0.8 + u_slef d * 0.4);
          lef_v = calculateLEF_SA tefVariation suscVariation;
          slee_v = calculateLM primaryVariation secondaryVariation slefVariation
      in calculateALE_SA lef_v slee_v)"

record Band =
  band_p10 :: "real option"
  band_p50 :: "real option"
  band_p90 :: "real option"

text \<open>
  \<open>runMonteCarloForPoint\<close>: the samples sorted by \<open>(a, b) => a - b\<close> (ascending) and read
  at \<open>Math.floor(results.length * q)\<close> for \<open>q\<close> = 0.1, 0.5, 0.9.
\<close>

definition runMonteCarloForPoint :: "RiskScenario \<Rightarrow> Draws list \<Rightarrow> Band" where
  "runMonteCarloForPoint testScenario ds =
     (let results = sort (map (iteration_ale_SA testScenario) ds)
      in \<lparr> band_p10 = js_index results (nat \<lfloor>real (length results) * 0.1\<rfloor>),
           band_p50 = js_index results (nat \<lfloor>real (length results) * 0.5\<rfloor>),
           band_p90 = js_index results (nat \<lfloor>real (length results) * 0.9\<rfloor>) \<rparr>)"

text \<open>
  \<open>getPartialDerivative\<close>: the \<open>value\<close> field of the result, for the selected factor
  (the \<open>formula\<close> field is a caption).
\<close>

definition getPartialDerivative :: "RiskScenario \<Rightarrow> FAIRFactor \<Rightarrow> real" where
  "getPartialDerivative scenario selectedFactor =
     (let lef_v = calculateLEF_SA (threatEventFrequency scenario) (susceptibility scenario);
          lm = calculateLM (calculatePrimaryLoss_SA scenario)
                 (calculateSecondaryLoss_SA scenario) (slef scenario);
          secondaryTotal = calculateSecondaryLoss_SA scenario
      in case selectedFactor of
           ThreatEventFrequency \<Rightarrow> (susceptibility scenario / 100) * lm
         | Susceptibility \<Rightarrow> threatEventFrequency scenario * lm * 0.01
         | Slef \<Rightarrow> lef_v * secondaryTotal * 0.01
         | Productivity \<Rightarrow> lef_v
         | Response \<Rightarrow> lef_v
         | Replacement \<Rightarrow> lef_v
         | Fines \<Rightarrow> lef_v * (slef scenario / 100)
         | CompetitiveAdvantage \<Rightarrow> lef_v * (slef scenario / 100)
         | Reputation \<Rightarrow> lef_v * (slef scenario / 100))"

text \<open>
  \<open>applyVariation\<close> inside \<open>generateSensitivityData\<close>: \<open>scenario\<close> is the baseline,
  \<open>testScenario\<close> its working copy, \<open>pct\<close> the percentage of the scan step.
\<close>

definition applyVariation ::
  "RiskScenario \<Rightarrow> RiskScenario \<Rightarrow> AnalysisMode \<Rightarrow> FAIRFactor \<Rightarrow> real \<Rightarrow> jsnum" where
  "applyVariation scenario testScenario mode factor pct =
     (let isPercentage = (factor = Susceptibility \<or> factor = Slef)
      in if isPercentage \<and> mode = Local
         then (let baseline = (if factor = Susceptibility then susceptibility scenario
                               else slef scenario);
                   logitBase = logit baseline;
                   logitVar = js_times logitBase (Num (pct / 100));
                   newValue = js_max (Num 0.1) (js_min (Num 99.9) (invLogit logitVar))
               in newValue)
         else (let baseline = factor_value testScenario factor
               in Num (baseline * (pct / 100))))"

section \<open>Properties named by the specification\<close>

text \<open>
  The percentile of the specification's \<open>summarize\<close>: sort ascending and read the
  element at index \<open>floor(N * q)\<close>.
\<close>

definition nearest_rank :: "real \<Rightarrow> real list \<Rightarrow> real option" where
  "nearest_rank q samples = js_index (sort samples) (nat \<lfloor>real (length samples) * q\<rfloor>)"

definition arithmetic_mean :: "real list \<Rightarrow> real" where
  "arithmetic_mean samples = sum_list samples / real (length samples)"

text \<open>The specification's concentration measure: the largest ALE over the sum of all.\<close>

definition spec_top_scenario_share :: "RiskScenario list \<Rightarrow> real" where
  "spec_top_scenario_share scenarios =
     Max (set (map (\<lambda>s. ale (calculateClientSide s)) scenarios))
       / sum_list (map (\<lambda>s. ale (calculateClientSide s)) scenarios)"

text \<open>All nine factors of a scenario are non-negative.\<close>

definition nonneg_factors :: "RiskScenario \<Rightarrow> bool" where
  "nonneg_factors s =
     (0 \<le> threatEventFrequency s \<and> 0 \<le> susceptibility s \<and>
      0 \<le> productivity s \<and> 0 \<le> response s \<and> 0 \<le> replacement s \<and>
      0 \<le> fines s \<and> 0 \<le> competitiveAdvantage s \<and> 0 \<le> reputation s \<and>
      0 \<le> slef s)"

text \<open>
  A sample lies between \<open>0.8^4 = 0.4096\<close> and \<open>1.2^4 = 2.0736\<close> times the deterministic
  ALE of the scenario; a percentile does when it is defined and its value does.
\<close>

definition within_bounds :: "RiskScenario \<Rightarrow> real \<Rightarrow> bool" where
  "within_bounds s x = (0.4096 * calculateALE_SD s \<le> x \<and> x \<le> 2.0736 * calculateALE_SD s)"

definition percentile_within_bounds :: "RiskScenario \<Rightarrow> real option \<Rightarrow> bool" where
  "percentile_within_bounds s p = (case p of None \<Rightarrow> False | Some v \<Rightarrow> within_bounds s v)"

section \<open>Example inputs\<close>

definition example_scenario :: RiskScenario where
  "example_scenario =
     \<lparr> id_scenario = ''1'', threatEventFrequency = 1, susceptibility = 100,
       productivity = 100, response = 0, replacement = 0,
       fines = 0, competitiveAdvantage = 0, reputation = 0, slef = 50 \<rparr>"

definition example_zero_loss :: RiskScenario where
  "example_zero_loss =
     \<lparr> id_scenario = ''2'', threatEventFrequency = 5 / 2, susceptibility = 35,
       productivity = 0, response = 0, replacement = 0,
       fines = 0, competitiveAdvantage = 0, reputation = 0, slef = 65 \<rparr>"

definition example_no_events :: RiskScenario where
  "example_no_events =
     \<lparr> id_scenario = ''3'', threatEventFrequency = 0, susceptibility = 35,
       productivity = 400000, response = 250000, replacement = 0,
       fines = 0, competitiveAdvantage = 0, reputation = 0, slef = 65 \<rparr>"


definition example_half :: RiskScenario where
  "example_half =
     \<lparr> id_scenario = ''5'', threatEventFrequency = 2, susceptibility = 50,
       productivity = 1000, response = 0, replacement = 0,
       fines = 0, competitiveAdvantage = 0, reputation = 0, slef = 0 \<rparr>"

definition draws_low :: Draws where
  "draws_low = \<lparr> u_tef = 0, u_susc = 0, u_primary = 0, u_secondary = 0, u_slef = 0 \<rparr>"

definition draws_mid :: Draws where
  "draws_mid =
     \<lparr> u_tef = 1 / 2, u_susc = 1 / 2, u_primary = 1 / 2, u_secondary = 1 / 2, u_slef = 1 / 2 \<rparr>"

text \<open>One hundred and five hundred passes, half with every draw 0, half with every draw 0.5.\<close>

definition example_draws_100 :: "Draws list" where
  "example_draws_100 = replicate 50 draws_low @ replicate 50 draws_mid"

definition example_draws_500 :: "Draws list" where
  "example_draws_500 = replicate 250 draws_low @ replicate 250 draws_mid"

text \<open>
  The wizard's form with the TEF and susceptibility triples of the specification's
  end-to-end scenario and no losses yet, and the same form after the productivity triple
  (5, 3, 1) has been typed.
\<close>

definition example_form :: FormData where
  "example_form =
     \<lparr> tefP = \<lparr> p10 = 6 / 5, p50 = 5 / 2, p90 = 4 \<rparr>,
       susceptibilityP = \<lparr> p10 = 20, p50 = 35, p90 = 55 \<rparr>,
       productivityP = \<lparr> p10 = 0, p50 = 0, p90 = 0 \<rparr>,
       responseP = \<lparr> p10 = 0, p50 = 0, p90 = 0 \<rparr>,
       replacementP = \<lparr> p10 = 0, p50 = 0, p90 = 0 \<rparr>,
       finesP = \<lparr> p10 = 0, p50 = 0, p90 = 0 \<rparr>,
       competitiveAdvantageP = \<lparr> p10 = 0, p50 = 0, p90 = 0 \<rparr>,
       reputationP = \<lparr> p10 = 0, p50 = 0, p90 = 0 \<rparr>,
       slefP = \<lparr> p10 = 0, p50 = 50, p90 = 100 \<rparr>,
       form_productivity = 0, form_response = 0, form_replacement = 0,
       form_fines = 0, form_competitiveAdvantage = 0, form_reputation = 0,
       form_slef = 50 \<rparr>"

definition example_form_violating :: FormData where
  "example_form_violating = onChange_productivity example_form 5 3 1"

section \<open>Auxiliary facts\<close>

subsection \<open>The dictionary of per-scenario results\<close>

lemma update_fresh: "k \<notin> fst ` set al \<Longrightarrow> AList.update k v al = al @ [(k, v)]"
  by (induction al) auto

lemma fold_update_fresh:
  "distinct (map id_scenario ss) \<Longrightarrow> id_scenario ` set ss \<inter> fst ` set acc = {} \<Longrightarrow>
   fold (\<lambda>scenario calc. AList.update (id_scenario scenario) (calc_entry scenario) calc) ss acc
     = acc @ map (\<lambda>s. (id_scenario s, calc_entry s)) ss"
proof (induction ss arbitrary: acc)
  case Nil
  then show ?case by simp
next
  case (Cons s ss)
  have fresh: "id_scenario s \<notin> fst ` set acc" using Cons.prems(2) by auto
  have d: "distinct (map id_scenario ss)" using Cons.prems(1) by simp
  have disj: "id_scenario ` set ss \<inter> fst ` set (acc @ [(id_scenario s, calc_entry s)]) = {}"
    using Cons.prems by auto
  show ?case
    using Cons.IH [OF d disj] by (simp add: update_fresh [OF fresh])
qed

lemma build_calc_distinct:
  "distinct (map id_scenario ss) \<Longrightarrow> build_calc ss = map (\<lambda>s. (id_scenario s, calc_entry s)) ss"
  using fold_update_fresh [of ss "[]"] by (simp add: build_calc_def)

lemma object_values_build_calc:
  "distinct (map id_scenario ss) \<Longrightarrow> object_values (build_calc ss) = map calc_entry ss"
  by (simp add: build_calc_distinct object_values_def comp_def)

lemma foldl_plus_sum_list:
  "foldl (\<lambda>sum c. sum + f c) a xs = a + sum_list (map f xs)" for a :: real
  by (induction xs arbitrary: a) simp_all

lemma calc_entry_fields:
  "ale (calc_entry s) = ale (calculateClientSide s)"
  "lef (calc_entry s) = lef (calculateClientSide s)"
  "slee (calc_entry s) = slee (calculateClientSide s)"
  by (simp_all add: calc_entry_def Let_def)

lemma or_zero_id: "or_zero x = x"
  by (simp add: or_zero_def)

lemma map_of_calc:
  assumes "distinct (map id_scenario ss)" and "s \<in> set ss"
  shows "map_of (map (\<lambda>s. (id_scenario s, calc_entry s)) ss) (id_scenario s) = Some (calc_entry s)"
proof (rule map_of_is_SomeI)
  show "distinct (map fst (map (\<lambda>s. (id_scenario s, calc_entry s)) ss))"
    using assms(1) by (simp add: comp_def)
  show "(id_scenario s, calc_entry s) \<in> set (map (\<lambda>s. (id_scenario s, calc_entry s)) ss)"
    using assms(2) by auto
qed

lemma ales_distinct:
  assumes "distinct (map id_scenario ss)"
  shows "map (calc_ale_or_zero (build_calc ss)) ss = map (\<lambda>s. ale (calculateClientSide s)) ss"
  using assms
  by (auto simp: calc_ale_or_zero_def build_calc_distinct map_of_calc or_zero_id calc_entry_fields)

subsection \<open>The maximum of a non-empty argument list\<close>

lemma fold_js_max_Num:
  "fold (\<lambda>x acc. js_max acc (Num x)) xs (Num a) = Num (fold max xs a)"
  by (induction xs arbitrary: a) (simp_all add: max.commute)

lemma Math_max_Cons: "Math_max (x # xs) = Num (Max (set (x # xs)))"
proof -
  have "Math_max (x # xs) = Num (fold max xs x)"
    by (simp add: Math_max_def fold_js_max_Num)
  then show ?thesis by (simp only: Max.set_eq_fold)
qed

subsection \<open>Indices computed with \<open>Math.floor\<close>\<close>

lemma js_index_in_set: "js_index xs i = Some v \<Longrightarrow> v \<in> set xs"
  by (auto simp: js_index_def split: if_splits)

lemma floor_index_less:
  fixes q :: real
  assumes "0 \<le> q" and "q < 1" and "0 < n"
  shows "nat \<lfloor>real n * q\<rfloor> < n"
proof -
  have "real n * q < real n" using assms by simp
  then have "\<lfloor>real n * q\<rfloor> < int n" by linarith
  moreover have "0 \<le> \<lfloor>real n * q\<rfloor>" using assms by simp
  ultimately show ?thesis by linarith
qed

lemma js_index_floor_defined:
  fixes q :: real
  assumes "0 \<le> q" and "q < 1" and "xs \<noteq> []"
  shows "js_index xs (nat \<lfloor>real (length xs) * q\<rfloor>) = Some (xs ! nat \<lfloor>real (length xs) * q\<rfloor>)"
  using floor_index_less [OF assms(1,2), of "length xs"] assms(3)
  by (simp add: js_index_def)

lemma sort_nonempty:
  fixes xs :: "real list"
  shows "xs \<noteq> [] \<Longrightarrow> sort xs \<noteq> []"
  by (metis length_0_conv length_sort)

lemma descending_index:
  fixes q :: real
  assumes "0 \<le> q" and "q < 1" and "xs \<noteq> []"
  shows "js_index (rev (sort xs)) (nat \<lfloor>real (length (rev (sort xs))) * q\<rfloor>)
         = Some (sort xs ! (length xs - 1 - nat \<lfloor>real (length xs) * q\<rfloor>))"
proof -
  have lt: "nat \<lfloor>real (length xs) * q\<rfloor> < length xs"
    using floor_index_less [OF assms(1,2)] assms(3) by simp
  then have "rev (sort xs) ! nat \<lfloor>real (length xs) * q\<rfloor>
             = sort xs ! (length (sort xs) - Suc (nat \<lfloor>real (length xs) * q\<rfloor>))"
    by (intro rev_nth) simp
  then show ?thesis using lt by (simp add: js_index_def)
qed

subsection \<open>Both Monte Carlo functions compute the same sample\<close>

lemma or_zero_scenario:
  "calculatePrimaryLoss_SA s = calculatePrimaryLoss_SD s"
  "calculateSecondaryLoss_SA s = calculateSecondaryLoss_SD s"
  by (simp_all add: calculatePrimaryLoss_SA_def calculatePrimaryLoss_SD_def
      calculateSecondaryLoss_SA_def calculateSecondaryLoss_SD_def or_zero_id)

lemma iteration_ale_SA_eq: "iteration_ale_SA s d = iteration_ale_SD s d"
  by (simp add: iteration_ale_SA_def Let_def or_zero_id or_zero_scenario calculateLEF_SA_def
      calculateLM_def calculateALE_SA_def iteration_ale_SD_def iteration_lef_SD_def
      iteration_slee_SD_def tefVariation_SD_def suscVariation_SD_def primaryVariation_SD_def
      secondaryVariation_SD_def slefVariation_SD_def)

lemma calculateLM_is_SLEE:
  "calculateLM (calculatePrimaryLoss_SA s) (calculateSecondaryLoss_SA s) (slef s) = calculateSLEE s"
  by (simp add: calculateLM_def or_zero_scenario calculateSLEE_def Let_def)

lemma baselineALE_eq: "baselineALE s = calculateLEF_SD s * calculateSLEE s"
  by (simp add: baselineALE_def calculateALE_SA_def calculateLEF_SA_def calculateLEF_SD_def
      calculateLM_is_SLEE)

lemma calculateSLEE_expanded:
  "calculateSLEE s = productivity s + response s + replacement s
     + (fines s + competitiveAdvantage s + reputation s) * (slef s / 100)"
  by (simp add: calculateSLEE_def Let_def calculatePrimaryLoss_SD_def
      calculateSecondaryLoss_SD_def)

lemmas example_run_defs =
  runMonteCarloSimulation_def iteration_ale_SD_def iteration_lef_SD_def
  iteration_slee_SD_def tefVariation_SD_def suscVariation_SD_def primaryVariation_SD_def
  secondaryVariation_SD_def slefVariation_SD_def calculatePrimaryLoss_SD_def
  calculateSecondaryLoss_SD_def example_scenario_def draws_low_def draws_mid_def

lemmas example_metrics_defs =
  calculateClientSideMetrics_def Let_def build_calc_def object_values_def calc_entry_def
  calculateClientSide_def calc_ale_or_zero_def or_zero_def Math_max_def

section \<open>Portfolio means\<close>

text \<open>
  C1. For every portfolio, given as scenarios with pairwise distinct ids (the
  specification's mapping from scenario id to scenario), the \<open>total_ale\<close> of the
  portfolio metrics is the sum of the scenarios' ALE values and
  \<open>expected_events_per_year\<close> is the sum of their LEF values, whatever the number of
  scenarios. The sums are exact in the model; the code has no correlation mode that could
  influence them.
\<close>

theorem portfolio_means_add:
  assumes "distinct (map id_scenario scenarios)"
  shows "total_ale (calculateClientSideMetrics scenarios)
           = (\<Sum>s\<leftarrow>scenarios. ale (calculateClientSide s))
       \<and> expected_events_per_year (calculateClientSideMetrics scenarios)
           = (\<Sum>s\<leftarrow>scenarios. lef (calculateClientSide s))"
  using assms
  by (simp add: calculateClientSideMetrics_def Let_def object_values_build_calc
      foldl_plus_sum_list comp_def calc_entry_fields)

text \<open>Two scenarios with ALE 100 and 1000 and one loss event a year each.\<close>

theorem portfolio_means_add_witness:
  "distinct (map id_scenario [example_scenario, example_half])
   \<and> total_ale (calculateClientSideMetrics [example_scenario, example_half]) = 1100
   \<and> expected_events_per_year (calculateClientSideMetrics [example_scenario, example_half]) = 2"
  using portfolio_means_add [of "[example_scenario, example_half]"]
  by (simp add: example_scenario_def example_half_def calculateClientSide_def Let_def)

section \<open>Scenario sampling in the client\<close>




section \<open>Weighted average loss magnitude\<close>

text \<open>
  C3, as the code has it. For scenarios with pairwise distinct ids: when the sum of the
  LEF values is positive, \<open>weighted_average_lm\<close> is the LEF-weighted sum of the loss
  magnitudes divided by the sum of the LEF values, and otherwise it is stored as 0; the
  "Average Loss Magnitude" card of the dashboard shows the text N/A exactly when the sum
  of the LEF values is 0, and the amount otherwise.
\<close>

theorem weighted_average_lm_reporting:
  assumes "distinct (map id_scenario scenarios)"
  shows "weighted_average_lm (calculateClientSideMetrics scenarios)
           = (if 0 < (\<Sum>s\<leftarrow>scenarios. lef (calculateClientSide s))
              then (\<Sum>s\<leftarrow>scenarios. lef (calculateClientSide s) * slee (calculateClientSide s))
                   / (\<Sum>s\<leftarrow>scenarios. lef (calculateClientSide s))
              else 0)
       \<and> averageLM_card_value (calculateClientSideMetrics scenarios)
           = (if (\<Sum>s\<leftarrow>scenarios. lef (calculateClientSide s)) = 0
              then Text ''N/A''
              else DollarsK (weighted_average_lm (calculateClientSideMetrics scenarios) / 1000))"
proof -
  have total: "expected_events_per_year (calculateClientSideMetrics scenarios)
               = (\<Sum>s\<leftarrow>scenarios. lef (calculateClientSide s))"
    using assms
    by (simp add: calculateClientSideMetrics_def Let_def object_values_build_calc
        foldl_plus_sum_list comp_def calc_entry_fields)
  have avg: "weighted_average_lm (calculateClientSideMetrics scenarios)
           = (if 0 < (\<Sum>s\<leftarrow>scenarios. lef (calculateClientSide s))
              then (\<Sum>s\<leftarrow>scenarios. lef (calculateClientSide s) * slee (calculateClientSide s))
                   / (\<Sum>s\<leftarrow>scenarios. lef (calculateClientSide s))
              else 0)"
    using assms
    by (simp add: calculateClientSideMetrics_def Let_def object_values_build_calc
        foldl_plus_sum_list comp_def calc_entry_fields)
  have card: "averageLM_card_value (calculateClientSideMetrics scenarios)
           = (if (\<Sum>s\<leftarrow>scenarios. lef (calculateClientSide s)) = 0
              then Text ''N/A''
              else DollarsK (weighted_average_lm (calculateClientSideMetrics scenarios) / 1000))"
    by (simp add: averageLM_card_value_def zeroLEF_def total)
  show ?thesis using avg card by blast
qed

text \<open>The two-scenario portfolio: the weighted average is (100 + 1000) / 2.\<close>

theorem weighted_average_lm_reporting_witness:
  "distinct (map id_scenario [example_scenario, example_half])
   \<and> weighted_average_lm (calculateClientSideMetrics [example_scenario, example_half]) = 550
   \<and> averageLM_card_value (calculateClientSideMetrics [example_scenario, example_half])
       = DollarsK (11 / 20)"
  using weighted_average_lm_reporting [of "[example_scenario, example_half]"]
  by (simp add: example_scenario_def example_half_def calculateClientSide_def Let_def)

text \<open>
  C3 as stated fails: for a portfolio of one scenario with TEF 0 the sum of the LEF
  values is 0, the metrics carry \<open>weighted_average_lm = 0\<close>, and the text copied by
  \<open>copyFormulas\<close> prints that zero as an amount, while the card shows N/A.
\<close>

theorem zero_lef_average_is_stored_as_zero:
  "expected_events_per_year (calculateClientSideMetrics [example_no_events]) = 0
   \<and> weighted_average_lm (calculateClientSideMetrics [example_no_events]) = 0
   \<and> copyFormulas_averageLM (calculateClientSideMetrics [example_no_events]) = DollarsK 0
   \<and> averageLM_card_value (calculateClientSideMetrics [example_no_events]) = Text ''N/A''"
  by (simp add: example_metrics_defs example_no_events_def copyFormulas_averageLM_def
      averageLM_card_value_def zeroLEF_def)

section \<open>Percentile triples\<close>

text \<open>
  The wizard's LEF step rejects a violating triple: it is complete, and the Next button
  enabled, only if the TEF triple and the susceptibility triple are both in monotone
  order.
\<close>

lemma lef_step_rejects:
  "isStepComplete_lef tef susc \<Longrightarrow> monotone_triple tef \<and> monotone_triple susc"
  by (simp add: isStepComplete_lef_def monotone_triple_def)

text \<open>
  The LM step looks at the medians only: after a productivity triple has been typed, the
  step is complete exactly when the loss magnitude computed from the point fields is
  positive, whatever \<open>p10\<close> and \<open>p90\<close> are.
\<close>

lemma lm_step_ignores_order:
  "isStepComplete_lm (onChange_productivity formData a b c)
     = (0 < calculateLM_SC (formData\<lparr> form_productivity := b \<rparr>))"
  by (simp add: isStepComplete_lm_def onChange_productivity_def calculateLM_SC_def Let_def)

text \<open>
  \<open>RangeInput.handleBlur\<close>, a component that nothing mounts, would hand on a triple in
  monotone order.
\<close>

lemma handleBlur_monotone: "monotone_triple (handleBlur t)"
  by (simp add: handleBlur_def monotone_triple_def)

text \<open>
  C4. Every triple with \<open>p10 > p50\<close> or \<open>p50 > p90\<close> should be rejected before any
  sampling. The wizard does not reject a violating loss-form triple: with the valid TEF
  and susceptibility triples of the example form and the productivity triple (5, 3, 1),
  which the input component itself marks with both order errors, the LEF step and the LM
  step are complete, the scenario is created with productivity 3, and the request built
  for it carries the triple (1.8, 3, 7.5) in place of the one typed.
\<close>

theorem lm_step_accepts_violating_triple:
  "isStepComplete_lef (tefP example_form_violating) (susceptibilityP example_form_violating)
   \<and> productivityP example_form_violating = \<lparr> p10 = 5, p50 = 3, p90 = 1 \<rparr>
   \<and> \<not> monotone_triple (productivityP example_form_violating)
   \<and> validateRange_errors False (Some 0) None (productivityP example_form_violating)
       = [P10_above_P50, P50_above_P90]
   \<and> isStepComplete_lm example_form_violating
   \<and> productivity (handleSubmit ''6'' example_form_violating) = 3
   \<and> request_productivity (handleSubmit ''6'' example_form_violating)
       = Some \<lparr> p10 = 9 / 5, p50 = 3, p90 = 15 / 2 \<rparr>"
  by (simp add: example_form_violating_def example_form_def onChange_productivity_def
      isStepComplete_lef_def monotone_triple_def validateRange_errors_def
      isStepComplete_lm_def calculateLM_SC_def Let_def handleSubmit_def
      request_productivity_def)

section \<open>Percentiles of the sample array\<close>

subsection \<open>When the exceedance curve is finished\<close>

lemma generateLEC_loop_returns:
  assumes "0 < step"
  shows "\<exists>lec. generateLEC_loop results step i acc = Some lec"
proof (induction "length results - i" arbitrary: i acc rule: less_induct)
  case less
  show ?case
  proof (cases "i < length results")
    case True
    have "length results - (i + step) < length results - i" using True assms by linarith
    from less [OF this] obtain lec where
      "generateLEC_loop results step (i + step)
         (acc @ [\<lparr> probability = (real i / real (length results)) * 100,
                   loss = round (results ! i) \<rparr>]) = Some lec"
      by blast
    then show ?thesis using True by (subst generateLEC_loop.simps) simp
  next
    case False
    then show ?thesis by (subst generateLEC_loop.simps) simp
  qed
qed

lemma generateLEC_loop_stuck:
  assumes "generateLEC_loop results step i acc = Some lec"
  shows "\<not> (step = 0 \<and> i < length results)"
proof (rule generateLEC_loop.raw_induct
    [where P = "\<lambda>results step i acc lec. \<not> (step = 0 \<and> i < length results)", OF _ assms])
  fix f :: "real list \<Rightarrow> nat \<Rightarrow> nat \<Rightarrow> LecPoint list \<Rightarrow> LecPoint list option"
  fix rs :: "real list" and st j :: nat and ac lc :: "LecPoint list"
  assume IH: "\<And>results step i lecData y. f results step i lecData = Some y
      \<Longrightarrow> \<not> (step = 0 \<and> i < length results)"
  assume body: "(if j < length rs
      then f rs st (j + st)
             (ac @ [\<lparr> probability = (real j / real (length rs)) * 100,
                        loss = round (rs ! j) \<rparr>])
      else Some ac) = Some lc"
  show "\<not> (st = 0 \<and> j < length rs)"
  proof
    assume a: "st = 0 \<and> j < length rs"
    with body have "f rs st (j + st)
        (ac @ [\<lparr> probability = (real j / real (length rs)) * 100,
                   loss = round (rs ! j) \<rparr>]) = Some lc"
      by simp
    from IH [OF this] a show False by simp
  qed
qed

lemma step_ge_50:
  assumes "50 \<le> n"
  shows "0 < nat \<lfloor>real n / 50\<rfloor>"
proof -
  have "1 \<le> real n / 50" using assms by simp
  then have "1 \<le> \<lfloor>real n / 50\<rfloor>" by linarith
  then show ?thesis by linarith
qed

lemma step_lt_50:
  assumes "n < 50"
  shows "nat \<lfloor>real n / 50\<rfloor> = 0"
proof -
  have "real n / 50 < 1" using assms by simp
  then have "\<lfloor>real n / 50\<rfloor> < 1" by linarith
  then show ?thesis by linarith
qed

lemma generateLEC_returns:
  assumes "50 \<le> length results"
  shows "\<exists>lec. generateLEC results = Some lec"
  using generateLEC_loop_returns [OF step_ge_50 [OF assms]]
  by (simp add: generateLEC_def Let_def)

lemma generateLEC_diverges:
  assumes "0 < length results" and "length results < 50"
  shows "generateLEC results = None"
proof (cases "generateLEC results")
  case None
  then show ?thesis .
next
  case (Some lec)
  then have "generateLEC_loop results 0 0 [] = Some lec"
    by (simp add: generateLEC_def Let_def step_lt_50 [OF assms(2)])
  from generateLEC_loop_stuck [OF this] assms(1) show ?thesis by simp
qed

text \<open>With 1 to 49 simulations ScenarioDetail never gets to its percentiles.\<close>

lemma scenarioDetail_report_diverges:
  assumes "0 < length ds_lec" and "length ds_lec < 50"
  shows "scenarioDetail_report s ds_lec ds = None"
proof -
  have "generateLEC (runMonteCarloSimulation s ds_lec) = None"
    using assms by (intro generateLEC_diverges) (simp_all add: runMonteCarloSimulation_def)
  then show ?thesis by (simp add: scenarioDetail_report_def)
qed

subsection \<open>What ScenarioDetail reports from 50 simulations on\<close>

lemma scenarioDetail_report_values:
  assumes "50 \<le> length ds" and "length ds_lec = length ds"
  shows "map_option report_p50 (scenarioDetail_report s ds_lec ds)
           = Some (Some (sort (map (iteration_ale_SD s) ds)
                           ! (length ds - 1 - nat \<lfloor>real (length ds) * 0.5\<rfloor>)))
       \<and> map_option report_p90 (scenarioDetail_report s ds_lec ds)
           = Some (Some (sort (map (iteration_ale_SD s) ds)
                           ! (length ds - 1 - nat \<lfloor>real (length ds) * 0.1\<rfloor>)))
       \<and> map_option report_p99 (scenarioDetail_report s ds_lec ds)
           = Some (Some (sort (map (iteration_ale_SD s) ds)
                           ! (length ds - 1 - nat \<lfloor>real (length ds) * 0.01\<rfloor>)))
       \<and> map_option report_mean (scenarioDetail_report s ds_lec ds)
           = Some (calculateLEF_SD s * calculateSLEE s)"
proof -
  have ne: "map (iteration_ale_SD s) ds \<noteq> []" using assms(1) by auto
  have "50 \<le> length (runMonteCarloSimulation s ds_lec)"
    using assms by (simp add: runMonteCarloSimulation_def)
  from generateLEC_returns [OF this] obtain lec where
    lec: "generateLEC (runMonteCarloSimulation s ds_lec) = Some lec" by blast
  have rep: "scenarioDetail_report s ds_lec ds
             = Some \<lparr> report_lecData = lec,
                      report_mean = detail_mean s,
                      report_p50 = detail_p50 (runMonteCarloSimulation s ds),
                      report_p90 = detail_p90 (runMonteCarloSimulation s ds),
                      report_p99 = detail_p99 (runMonteCarloSimulation s ds) \<rparr>"
    by (simp add: scenarioDetail_report_def lec Let_def)
  have mean: "detail_mean s = calculateLEF_SD s * calculateSLEE s"
    by (simp add: detail_mean_def calculateALE_SD_def)
  have d50: "detail_p50 (runMonteCarloSimulation s ds)
             = Some (sort (map (iteration_ale_SD s) ds)
                       ! (length ds - 1 - nat \<lfloor>real (length ds) * 0.5\<rfloor>))"
    using descending_index [OF _ _ ne, of "0.5"]
    by (simp add: detail_p50_def runMonteCarloSimulation_def)
  have d90: "detail_p90 (runMonteCarloSimulation s ds)
             = Some (sort (map (iteration_ale_SD s) ds)
                       ! (length ds - 1 - nat \<lfloor>real (length ds) * 0.1\<rfloor>))"
    using descending_index [OF _ _ ne, of "0.1"]
    by (simp add: detail_p90_def runMonteCarloSimulation_def)
  have d99: "detail_p99 (runMonteCarloSimulation s ds)
             = Some (sort (map (iteration_ale_SD s) ds)
                       ! (length ds - 1 - nat \<lfloor>real (length ds) * 0.01\<rfloor>))"
    using descending_index [OF _ _ ne, of "0.01"]
    by (simp add: detail_p99_def runMonteCarloSimulation_def)
  show ?thesis
    by (simp only: rep option.map DetailReport.simps d50 d90 d99 mean)
qed

subsection \<open>Arrays of two blocks of equal samples\<close>

lemma two_block_sort:
  fixes a b :: real
  assumes "a \<le> b"
  shows "sort (replicate n a @ replicate m b) = replicate n a @ replicate m b"
  using assms by (intro sort_key_id_if_sorted) (auto simp: sorted_append)

lemma two_block_nth:
  "i < n \<Longrightarrow> (replicate n a @ replicate m b) ! i = a"
  "n \<le> i \<Longrightarrow> i < n + m \<Longrightarrow> (replicate n a @ replicate m b) ! i = b"
  by (simp_all add: nth_append)

lemma example_samples:
  "iteration_ale_SD example_scenario draws_low = 256 / 5"
  "iteration_ale_SD example_scenario draws_mid = 100"
  by (simp_all add: example_run_defs)

lemma example_samples_100:
  "map (iteration_ale_SD example_scenario) example_draws_100
     = replicate 50 (256 / 5) @ replicate 50 100"
  unfolding example_draws_100_def by (simp only: map_append map_replicate example_samples)

lemma example_samples_500:
  "map (iteration_ale_SA example_scenario) example_draws_500
     = replicate 250 (256 / 5) @ replicate 250 100"
  unfolding example_draws_500_def
  by (simp only: map_append map_replicate example_samples iteration_ale_SA_eq)

lemma example_lengths:
  "length example_draws_100 = 100" "length example_draws_500 = 500"
  unfolding example_draws_100_def example_draws_500_def
  by (simp_all only: length_append length_replicate)

lemma sorted_100:
  "sort (replicate 50 (256 / 5 :: real) @ replicate 50 100)
     = replicate 50 (256 / 5) @ replicate 50 100"
  by (rule two_block_sort) simp

lemma sorted_500:
  "sort (replicate 250 (256 / 5 :: real) @ replicate 250 100)
     = replicate 250 (256 / 5) @ replicate 250 100"
  by (rule two_block_sort) simp

lemma example_index_100:
  "length example_draws_100 - 1 - nat \<lfloor>real (length example_draws_100) * 0.5\<rfloor> = 49"
  by (simp add: example_lengths)

text \<open>
  C5, as the code has it. ScenarioDetail reports percentiles only when its
  \<open>simulations\<close> count \<open>N\<close> is at least 50. It then sorts the samples descending and reads
  P50, P90 and P99 at the indices \<open>floor(N * 0.5)\<close>, \<open>floor(N * 0.1)\<close> and
  \<open>floor(N * 0.01)\<close> of the descending array, which is the element at index
  \<open>N - 1 - floor(N * (1 - q))\<close> of the ascending one, without interpolation; the value it
  shows as the mean is the deterministic ALE, the product of LEF and loss magnitude,
  whatever the samples are. The sensitivity analysis sorts its samples ascending and
  reads P10, P50 and P90 at index \<open>floor(N * q)\<close> for \<open>q\<close> = 0.1, 0.5, 0.9, without
  interpolation.
\<close>

theorem percentile_indices:
  assumes "50 \<le> length ds" and "length ds_lec = length ds"
  shows "map_option report_p50 (scenarioDetail_report s ds_lec ds)
           = Some (Some (sort (map (iteration_ale_SD s) ds)
                           ! (length ds - 1 - nat \<lfloor>real (length ds) * 0.5\<rfloor>)))
       \<and> map_option report_p90 (scenarioDetail_report s ds_lec ds)
           = Some (Some (sort (map (iteration_ale_SD s) ds)
                           ! (length ds - 1 - nat \<lfloor>real (length ds) * 0.1\<rfloor>)))
       \<and> map_option report_p99 (scenarioDetail_report s ds_lec ds)
           = Some (Some (sort (map (iteration_ale_SD s) ds)
                           ! (length ds - 1 - nat \<lfloor>real (length ds) * 0.01\<rfloor>)))
       \<and> map_option report_mean (scenarioDetail_report s ds_lec ds)
           = Some (calculateLEF_SD s * calculateSLEE s)
       \<and> band_p10 (runMonteCarloForPoint s ds_sa) = nearest_rank 0.1 (map (iteration_ale_SA s) ds_sa)
       \<and> band_p50 (runMonteCarloForPoint s ds_sa) = nearest_rank 0.5 (map (iteration_ale_SA s) ds_sa)
       \<and> band_p90 (runMonteCarloForPoint s ds_sa) = nearest_rank 0.9 (map (iteration_ale_SA s) ds_sa)"
proof -
  have band: "band_p10 (runMonteCarloForPoint s ds_sa) = nearest_rank 0.1 (map (iteration_ale_SA s) ds_sa)"
    "band_p50 (runMonteCarloForPoint s ds_sa) = nearest_rank 0.5 (map (iteration_ale_SA s) ds_sa)"
    "band_p90 (runMonteCarloForPoint s ds_sa) = nearest_rank 0.9 (map (iteration_ale_SA s) ds_sa)"
    by (simp_all add: runMonteCarloForPoint_def nearest_rank_def Let_def)
  show ?thesis using scenarioDetail_report_values [OF assms] band by blast
qed

text \<open>
  A hundred simulations in ScenarioDetail, fifty samples 51.2 and fifty samples 100; the
  five hundred passes of the sensitivity analysis, half 51.2 and half 100.
\<close>

theorem percentile_indices_witness:
  "50 \<le> length example_draws_100 \<and> length example_draws_100 = length example_draws_100
   \<and> map_option report_p50
        (scenarioDetail_report example_scenario example_draws_100 example_draws_100)
       = Some (Some (256 / 5))
   \<and> band_p50 (runMonteCarloForPoint example_scenario example_draws_500) = Some 100"
proof -
  have i1: "(replicate 50 (256 / 5 :: real) @ replicate 50 100) ! 49 = 256 / 5"
    by (rule two_block_nth(1); simp)
  have i2: "(replicate 250 (256 / 5 :: real) @ replicate 250 100) ! 250 = 100"
    by (rule two_block_nth(2); simp)
  have l: "length (replicate 250 (256 / 5 :: real) @ replicate 250 100) = 500"
    by (simp only: length_append length_replicate; simp)
  have nr: "nearest_rank 0.5 (map (iteration_ale_SA example_scenario) example_draws_500) = Some 100"
    unfolding nearest_rank_def example_samples_500 sorted_500 js_index_def l
    using i2 by simp
  have h: "50 \<le> length example_draws_100" by (simp add: example_lengths)
  from percentile_indices [OF h refl, of example_scenario example_draws_500]
  show ?thesis
    unfolding example_index_100 example_samples_100 sorted_100 i1 nr using h by simp
qed

text \<open>
  C5 as stated fails for ScenarioDetail: of a hundred samples, fifty of them 51.2 and
  fifty 100, it reports 51.2 as P50, where the ascending array read at index
  \<open>floor(100 * 0.5) = 50\<close> gives 100; and it reports 100 as the mean, where the arithmetic
  mean of the samples is 75.6.
\<close>

theorem detail_median_differs_from_nearest_rank:
  "map_option report_p50
      (scenarioDetail_report example_scenario example_draws_100 example_draws_100)
     = Some (Some (256 / 5))
   \<and> nearest_rank 0.5 (map (iteration_ale_SD example_scenario) example_draws_100) = Some 100
   \<and> map_option report_mean
        (scenarioDetail_report example_scenario example_draws_100 example_draws_100)
       = Some 100
   \<and> arithmetic_mean (map (iteration_ale_SD example_scenario) example_draws_100) = 378 / 5"
proof -
  have h: "50 \<le> length example_draws_100" by (simp add: example_lengths)
  have i1: "(replicate 50 (256 / 5 :: real) @ replicate 50 100) ! 49 = 256 / 5"
    by (rule two_block_nth(1); simp)
  have i2: "(replicate 50 (256 / 5 :: real) @ replicate 50 100) ! 50 = 100"
    by (rule two_block_nth(2); simp)
  have l: "length (replicate 50 (256 / 5 :: real) @ replicate 50 100) = 100"
    by (simp only: length_append length_replicate; simp)
  have p50: "map_option report_p50
      (scenarioDetail_report example_scenario example_draws_100 example_draws_100)
     = Some (Some (256 / 5))"
    using scenarioDetail_report_values [OF h refl, of example_scenario]
    unfolding example_index_100 example_samples_100 sorted_100 i1 by simp
  have mean: "map_option report_mean
        (scenarioDetail_report example_scenario example_draws_100 example_draws_100)
       = Some 100"
    using scenarioDetail_report_values [OF h refl, of example_scenario]
    by (simp add: calculateLEF_SD_def calculateSLEE_def Let_def calculatePrimaryLoss_SD_def
        calculateSecondaryLoss_SD_def example_scenario_def)
  have nr: "nearest_rank 0.5 (map (iteration_ale_SD example_scenario) example_draws_100) = Some 100"
    unfolding nearest_rank_def example_samples_100 sorted_100 js_index_def l
    using i2 by simp
  have am: "arithmetic_mean (map (iteration_ale_SD example_scenario) example_draws_100) = 378 / 5"
    unfolding arithmetic_mean_def example_samples_100 l
    by (simp only: sum_list_append sum_list_replicate; simp)
  show ?thesis using p50 nr mean am by blast
qed

section \<open>Perturbing a percentage in logit space\<close>

text \<open>
  For a baseline strictly between 0 and 100 the logit is a finite number, and the
  perturbed value of the local scan is a number between 0.1 and 99.9 for every
  perturbation percentage.
\<close>

lemma logit_inside:
  assumes "0 < p" and "p < 100"
  shows "logit p = Num (ln (p / (100 - p)))"
  using assms by (simp add: logit_def)

lemma invLogit_Num: "invLogit (Num x) = Num (100 / (1 + exp (- x)))"
proof -
  have "1 + exp (- x) \<noteq> 0" using exp_gt_zero [of "- x"] by linarith
  then show ?thesis by (simp add: invLogit_def)
qed

lemma applyVariation_percentage_inside:
  assumes "factor = Susceptibility \<or> factor = Slef"
    and "0 < factor_value scenario factor" and "factor_value scenario factor < 100"
  shows "\<exists>v. applyVariation scenario testScenario Local factor pct = Num v
              \<and> 0.1 \<le> v \<and> v \<le> 99.9"
proof -
  let ?b = "factor_value scenario factor"
  let ?y = "ln (?b / (100 - ?b)) * (pct / 100)"
  let ?v = "max 0.1 (min 99.9 (100 / (1 + exp (- ?y))))"
  have base: "(if factor = Susceptibility then susceptibility scenario else slef scenario) = ?b"
    using assms(1) by auto
  have "applyVariation scenario testScenario Local factor pct = Num ?v"
    using assms(1)
    by (simp add: applyVariation_def Let_def base logit_inside [OF assms(2,3)] invLogit_Num)
  moreover have "0.1 \<le> ?v" and "?v \<le> 99.9" by simp_all
  ultimately show ?thesis by blast
qed

text \<open>
  C6. The perturbed value of a percentage-valued factor should lie strictly between 0 and
  100 for every baseline and every perturbation percentage. At the baseline
  susceptibility 100 and the perturbation percentage 0 the code returns \<open>NaN\<close>: the logit
  of 100 is \<open>Infinity\<close>, \<open>Infinity * 0\<close> is \<open>NaN\<close>, and \<open>Math.min\<close> and \<open>Math.max\<close> hand
  \<open>NaN\<close> on.
\<close>

theorem applyVariation_nan:
  "susceptibility example_scenario = 100
   \<and> applyVariation example_scenario example_scenario Local Susceptibility 0 = NaN"
  by (simp add: applyVariation_def Let_def example_scenario_def logit_def invLogit_def)

section \<open>The partial derivative with respect to TEF\<close>

text \<open>
  C7, as the code has it. The closed-form partial derivative of ALE with respect to TEF
  is the stored susceptibility divided by 100, times the baseline loss magnitude
  (primary losses plus secondary losses weighted by SLEF / 100). It is the exact rate of
  change: raising TEF by \<open>h\<close> raises the ALE by \<open>h\<close> times this value.
\<close>

theorem partial_derivative_tef:
  "getPartialDerivative s ThreatEventFrequency
     = (susceptibility s / 100)
       * (productivity s + response s + replacement s
          + (fines s + competitiveAdvantage s + reputation s) * (slef s / 100))
   \<and> baselineALE (s\<lparr>threatEventFrequency := threatEventFrequency s + h\<rparr>) - baselineALE s
     = h * getPartialDerivative s ThreatEventFrequency"
proof -
  let ?s' = "s\<lparr>threatEventFrequency := threatEventFrequency s + h\<rparr>"
  have val: "getPartialDerivative s ThreatEventFrequency = (susceptibility s / 100) * calculateSLEE s"
    by (simp add: getPartialDerivative_def Let_def calculateLM_is_SLEE)
  have slee': "calculateSLEE ?s' = calculateSLEE s"
    by (simp add: calculateSLEE_expanded)
  have lef': "calculateLEF_SD ?s'
              = calculateLEF_SD s + h * (susceptibility s / 100)"
    by (simp add: calculateLEF_SD_def distrib_right)
  have "baselineALE ?s' - baselineALE s
        = (calculateLEF_SD s + h * (susceptibility s / 100)) * calculateSLEE s
          - calculateLEF_SD s * calculateSLEE s"
    by (simp only: baselineALE_eq slee' lef')
  also have "\<dots> = h * ((susceptibility s / 100) * calculateSLEE s)"
    by (simp add: distrib_right)
  finally have diff: "baselineALE ?s' - baselineALE s
                      = h * getPartialDerivative s ThreatEventFrequency"
    by (simp only: val)
  show ?thesis using val diff by (simp only: calculateSLEE_expanded)
qed

text \<open>
  C7 as stated fails: with susceptibility 50 (percent) and loss magnitude 1000 the code
  returns 500, not the product 50000 of the stored susceptibility and the loss magnitude.
\<close>

theorem tef_derivative_is_not_percent_times_lm:
  "getPartialDerivative example_half ThreatEventFrequency = 500
   \<and> susceptibility example_half
       * calculateLM (calculatePrimaryLoss_SA example_half)
           (calculateSecondaryLoss_SA example_half) (slef example_half) = 50000"
  by (simp add: getPartialDerivative_def Let_def calculateLM_def calculatePrimaryLoss_SA_def
      calculateSecondaryLoss_SA_def or_zero_def example_half_def)

section \<open>Zero-loss scenarios\<close>

text \<open>
  With all six loss forms zero, every sample of the client-side Monte Carlo is zero as
  well, and so is every percentile read from at least one sample.
\<close>

lemma zero_loss_iteration:
  assumes "productivity s = 0" and "response s = 0" and "replacement s = 0"
    and "fines s = 0" and "competitiveAdvantage s = 0" and "reputation s = 0"
  shows "iteration_ale_SD s d = 0"
  using assms
  by (simp add: iteration_ale_SD_def iteration_slee_SD_def primaryVariation_SD_def
      secondaryVariation_SD_def calculatePrimaryLoss_SD_def calculateSecondaryLoss_SD_def)

lemma js_index_all_zero:
  fixes q :: real and xs :: "real list"
  assumes "0 \<le> q" and "q < 1" and "\<forall>x\<in>set xs. x = 0"
  shows "js_index xs (nat \<lfloor>real (length xs) * q\<rfloor>) = (if xs = [] then None else Some 0)"
proof (cases "xs = []")
  case True
  then show ?thesis by (simp add: js_index_def)
next
  case False
  have "nat \<lfloor>real (length xs) * q\<rfloor> < length xs"
    using floor_index_less [OF assms(1,2)] False by simp
  then have "xs ! nat \<lfloor>real (length xs) * q\<rfloor> \<in> set xs" by simp
  then have "xs ! nat \<lfloor>real (length xs) * q\<rfloor> = 0" using assms(3) by blast
  then show ?thesis using False by (simp add: js_index_floor_defined [OF assms(1,2) False])
qed

lemma zero_loss_monte_carlo:
  assumes "productivity s = 0" and "response s = 0" and "replacement s = 0"
    and "fines s = 0" and "competitiveAdvantage s = 0" and "reputation s = 0"
  shows "list_all (\<lambda>x. x = 0) (runMonteCarloSimulation s ds)"
    and "detail_p50 (runMonteCarloSimulation s ds) = (if ds = [] then None else Some 0)"
    and "detail_p90 (runMonteCarloSimulation s ds) = (if ds = [] then None else Some 0)"
    and "detail_p99 (runMonteCarloSimulation s ds) = (if ds = [] then None else Some 0)"
    and "band_p10 (runMonteCarloForPoint s ds) = (if ds = [] then None else Some 0)"
    and "band_p50 (runMonteCarloForPoint s ds) = (if ds = [] then None else Some 0)"
    and "band_p90 (runMonteCarloForPoint s ds) = (if ds = [] then None else Some 0)"
proof -
  let ?desc = "runMonteCarloSimulation s ds"
  let ?asc = "sort (map (iteration_ale_SA s) ds)"
  have desc: "\<forall>x\<in>set ?desc. x = 0"
    by (simp add: runMonteCarloSimulation_def zero_loss_iteration [OF assms])
  have asc: "\<forall>x\<in>set ?asc. x = 0"
    by (simp add: iteration_ale_SA_eq zero_loss_iteration [OF assms])
  have e_desc: "(?desc = []) = (ds = [])"
    using sort_nonempty [of "map (iteration_ale_SD s) ds"]
    by (auto simp: runMonteCarloSimulation_def)
  have e_asc: "(?asc = []) = (ds = [])"
    using sort_nonempty [of "map (iteration_ale_SA s) ds"] by auto
  show "list_all (\<lambda>x. x = 0) ?desc" using desc by (simp add: list_all_iff)
  show "detail_p50 ?desc = (if ds = [] then None else Some 0)"
    using js_index_all_zero [OF _ _ desc, of "0.5"] by (simp add: detail_p50_def e_desc)
  show "detail_p90 ?desc = (if ds = [] then None else Some 0)"
    using js_index_all_zero [OF _ _ desc, of "0.1"] by (simp add: detail_p90_def e_desc)
  show "detail_p99 ?desc = (if ds = [] then None else Some 0)"
    using js_index_all_zero [OF _ _ desc, of "0.01"] by (simp add: detail_p99_def e_desc)
  show "band_p10 (runMonteCarloForPoint s ds) = (if ds = [] then None else Some 0)"
    using js_index_all_zero [OF _ _ asc, of "0.1"]
    by (simp add: runMonteCarloForPoint_def Let_def e_asc)
  show "band_p50 (runMonteCarloForPoint s ds) = (if ds = [] then None else Some 0)"
    using js_index_all_zero [OF _ _ asc, of "0.5"]
    by (simp add: runMonteCarloForPoint_def Let_def e_asc)
  show "band_p90 (runMonteCarloForPoint s ds) = (if ds = [] then None else Some 0)"
    using js_index_all_zero [OF _ _ asc, of "0.9"]
    by (simp add: runMonteCarloForPoint_def Let_def e_asc)
qed

text \<open>
  C8. If all six loss forms of a scenario are zero, the ALE computed by
  \<open>calculateClientSide\<close> and each of the five ALE percentiles it reports are exactly 0,
  whatever the threat event frequency, the susceptibility and the SLEF are.
\<close>

theorem zero_loss_forms_zero_ale:
  assumes "productivity s = 0" and "response s = 0" and "replacement s = 0"
    and "fines s = 0" and "competitiveAdvantage s = 0" and "reputation s = 0"
  shows "ale (calculateClientSide s) = 0
       \<and> ale_p10 (calculateClientSide s) = 0
       \<and> ale_p50 (calculateClientSide s) = 0
       \<and> ale_p90 (calculateClientSide s) = 0
       \<and> ale_p95 (calculateClientSide s) = 0
       \<and> ale_p99 (calculateClientSide s) = 0"
  using assms by (simp add: calculateClientSide_def Let_def)

text \<open>TEF 2.5 a year, susceptibility 35 percent, SLEF 65 percent and no losses.\<close>

theorem zero_loss_forms_zero_ale_witness:
  "productivity example_zero_loss = 0 \<and> response example_zero_loss = 0
   \<and> replacement example_zero_loss = 0 \<and> fines example_zero_loss = 0
   \<and> competitiveAdvantage example_zero_loss = 0 \<and> reputation example_zero_loss = 0
   \<and> ale (calculateClientSide example_zero_loss) = 0
   \<and> ale_p10 (calculateClientSide example_zero_loss) = 0
   \<and> ale_p50 (calculateClientSide example_zero_loss) = 0
   \<and> ale_p90 (calculateClientSide example_zero_loss) = 0
   \<and> ale_p95 (calculateClientSide example_zero_loss) = 0
   \<and> ale_p99 (calculateClientSide example_zero_loss) = 0"
  using zero_loss_forms_zero_ale [of example_zero_loss]
  by (simp add: example_zero_loss_def)

section \<open>Concentration\<close>

lemma share_code:
  assumes "distinct (map id_scenario scenarios)" and "scenarios \<noteq> []"
  shows "top_scenario_share (calculateClientSideMetrics scenarios)
         = (if 0 < (\<Sum>s\<leftarrow>scenarios. ale (calculateClientSide s))
            then Num (spec_top_scenario_share scenarios * 100) else Num 0)"
proof -
  obtain s ss where sc: "scenarios = s # ss" using assms(2) by (cases scenarios) auto
  have m: "Math_max (map (\<lambda>s. ale (calculateClientSide s)) scenarios)
           = Num (Max (set (map (\<lambda>s. ale (calculateClientSide s)) scenarios)))"
    unfolding sc by (simp only: list.map Math_max_Cons)
  have t: "foldl (\<lambda>sum c. sum + ale c) 0 (object_values (build_calc scenarios))
           = (\<Sum>s\<leftarrow>scenarios. ale (calculateClientSide s))"
    using assms(1)
    by (simp add: object_values_build_calc foldl_plus_sum_list comp_def calc_entry_fields)
  show ?thesis
    by (simp add: calculateClientSideMetrics_def Let_def t ales_distinct [OF assms(1)] m
        spec_top_scenario_share_def)
qed

text \<open>
  C9, as the code has it. For every non-empty portfolio of scenarios with pairwise
  distinct ids, \<open>top_scenario_share\<close> is a percentage: 100 times the largest scenario ALE
  divided by the sum of all scenario ALE values when that sum is positive, and 0 when it
  is not. The high-concentration flag is raised exactly when this percentage exceeds 70.
\<close>

theorem top_scenario_share_percent:
  assumes "distinct (map id_scenario scenarios)" and "scenarios \<noteq> []"
  shows "top_scenario_share (calculateClientSideMetrics scenarios)
           = (if 0 < (\<Sum>s\<leftarrow>scenarios. ale (calculateClientSide s))
              then Num (spec_top_scenario_share scenarios * 100) else Num 0)
       \<and> (highConcentration (calculateClientSideMetrics scenarios)
            \<longleftrightarrow> 0 < (\<Sum>s\<leftarrow>scenarios. ale (calculateClientSide s))
                \<and> 70 < spec_top_scenario_share scenarios * 100)"
  by (simp add: highConcentration_def share_code [OF assms])

text \<open>ALE 100 and 1000: the larger scenario holds 1000/11, about 91 percent.\<close>

theorem top_scenario_share_percent_witness:
  "distinct (map id_scenario [example_scenario, example_half])
   \<and> [example_scenario, example_half] \<noteq> []
   \<and> top_scenario_share (calculateClientSideMetrics [example_scenario, example_half])
       = Num (1000 / 11)
   \<and> highConcentration (calculateClientSideMetrics [example_scenario, example_half])"
  using top_scenario_share_percent [of "[example_scenario, example_half]"]
  by (simp add: spec_top_scenario_share_def example_scenario_def example_half_def
      calculateClientSide_def Let_def)

text \<open>
  C9 as stated fails: for a portfolio of one scenario with ALE 100 the largest ALE
  divided by the sum is 1, and the code stores 100; for a portfolio of one scenario with
  ALE 0 the sum is 0, where the quotient has no value, and the code stores 0.
\<close>

theorem single_scenario_share_is_100:
  "top_scenario_share (calculateClientSideMetrics [example_scenario]) = Num 100
   \<and> spec_top_scenario_share [example_scenario] = 1
   \<and> total_ale (calculateClientSideMetrics [example_no_events]) = 0
   \<and> top_scenario_share (calculateClientSideMetrics [example_no_events]) = Num 0"
  by (simp add: example_metrics_defs example_scenario_def example_no_events_def
      spec_top_scenario_share_def)

section \<open>Bounds on the client-side Monte Carlo\<close>

lemma product_of_two_factors:
  fixes a b :: real
  assumes "4 / 5 \<le> a" "a \<le> 6 / 5" "4 / 5 \<le> b" "b \<le> 6 / 5"
  shows "16 / 25 \<le> a * b" and "a * b \<le> 36 / 25"
proof -
  have "(4 / 5) * (4 / 5) \<le> a * b"
    using assms by (intro mult_mono) simp_all
  then show "16 / 25 \<le> a * b" by simp
  have "a * b \<le> (6 / 5) * (6 / 5)"
    using assms by (intro mult_mono) simp_all
  then show "a * b \<le> 36 / 25" by simp
qed

text \<open>
  With \<open>L\<close> the deterministic LEF, \<open>P\<close> the primary loss and \<open>S\<close> the SLEF-weighted
  secondary loss, a sample is \<open>L a1 a2 (P a3 + S a4 a5)\<close> for five factors between 0.8
  and 1.2.
\<close>

lemma perturbed_product_bounds:
  fixes L P S a1 a2 a3 a4 a5 :: real
  assumes nn: "0 \<le> L" "0 \<le> P" "0 \<le> S"
    and a1: "4 / 5 \<le> a1" "a1 \<le> 6 / 5" and a2: "4 / 5 \<le> a2" "a2 \<le> 6 / 5"
    and a3: "4 / 5 \<le> a3" "a3 \<le> 6 / 5" and a4: "4 / 5 \<le> a4" "a4 \<le> 6 / 5"
    and a5: "4 / 5 \<le> a5" "a5 \<le> 6 / 5"
  shows "0.4096 * (L * (P + S)) \<le> (L * (a1 * a2)) * (P * a3 + S * (a4 * a5))"
    and "(L * (a1 * a2)) * (P * a3 + S * (a4 * a5)) \<le> 2.0736 * (L * (P + S))"
proof -
  note a12 = product_of_two_factors [OF a1 a2]
  note a45 = product_of_two_factors [OF a4 a5]
  have p_lo: "(16 / 25) * P \<le> P * a3"
  proof -
    have "P * (16 / 25) \<le> P * a3" using nn(2) a3(1) by (intro mult_left_mono) simp_all
    then show ?thesis by (simp add: mult.commute)
  qed
  have p_hi: "P * a3 \<le> (36 / 25) * P"
  proof -
    have "P * a3 \<le> P * (36 / 25)" using nn(2) a3(2) by (intro mult_left_mono) simp_all
    then show ?thesis by (simp add: mult.commute)
  qed
  have s_lo: "(16 / 25) * S \<le> S * (a4 * a5)"
  proof -
    have "S * (16 / 25) \<le> S * (a4 * a5)" using nn(3) a45(1) by (intro mult_left_mono)
    then show ?thesis by (simp add: mult.commute)
  qed
  have s_hi: "S * (a4 * a5) \<le> (36 / 25) * S"
  proof -
    have "S * (a4 * a5) \<le> S * (36 / 25)" using nn(3) a45(2) by (intro mult_left_mono)
    then show ?thesis by (simp add: mult.commute)
  qed
  have split_lo: "(16 / 25) * (P + S) = (16 / 25) * P + (16 / 25) * S"
    by (rule distrib_left)
  have split_hi: "(36 / 25) * (P + S) = (36 / 25) * P + (36 / 25) * S"
    by (rule distrib_left)
  have inner_lo: "(16 / 25) * (P + S) \<le> P * a3 + S * (a4 * a5)"
    using p_lo s_lo split_lo by linarith
  have inner_hi: "P * a3 + S * (a4 * a5) \<le> (36 / 25) * (P + S)"
    using p_hi s_hi split_hi by linarith
  have sum_nn: "0 \<le> (16 / 25) * (P + S)"
    using nn by simp
  have inner_nn: "0 \<le> P * a3 + S * (a4 * a5)"
    using inner_lo sum_nn by linarith
  have outer_lo: "L * (16 / 25) \<le> L * (a1 * a2)"
    using nn(1) a12(1) by (intro mult_left_mono)
  have outer_hi: "L * (a1 * a2) \<le> L * (36 / 25)"
    using nn(1) a12(2) by (intro mult_left_mono)
  have outer_nn: "0 \<le> L * (16 / 25)" using nn(1) by simp
  have outer_hi_nn: "0 \<le> L * (36 / 25)" using nn(1) by simp
  have lo_eq: "(L * (16 / 25)) * ((16 / 25) * (P + S)) = 0.4096 * (L * (P + S))"
    by simp
  have hi_eq: "(L * (36 / 25)) * ((36 / 25) * (P + S)) = 2.0736 * (L * (P + S))"
    by simp
  have "(L * (16 / 25)) * ((16 / 25) * (P + S)) \<le> (L * (a1 * a2)) * (P * a3 + S * (a4 * a5))"
    using outer_lo inner_lo outer_nn sum_nn by (rule mult_mono')
  then show "0.4096 * (L * (P + S)) \<le> (L * (a1 * a2)) * (P * a3 + S * (a4 * a5))"
    by (simp only: lo_eq)
  have "(L * (a1 * a2)) * (P * a3 + S * (a4 * a5)) \<le> (L * (36 / 25)) * ((36 / 25) * (P + S))"
    using outer_hi inner_hi outer_hi_nn inner_nn by (rule mult_mono)
  then show "(L * (a1 * a2)) * (P * a3 + S * (a4 * a5)) \<le> 2.0736 * (L * (P + S))"
    by (simp only: hi_eq)
qed

lemma iteration_ale_SD_factored:
  "iteration_ale_SD s d =
     (calculateLEF_SD s * ((0.8 + u_tef d * 0.4) * (0.8 + u_susc d * 0.4)))
     * (calculatePrimaryLoss_SD s * (0.8 + u_primary d * 0.4)
        + (calculateSecondaryLoss_SD s * (slef s / 100))
          * ((0.8 + u_secondary d * 0.4) * (0.8 + u_slef d * 0.4)))"
  by (simp add: iteration_ale_SD_def iteration_lef_SD_def iteration_slee_SD_def
      tefVariation_SD_def suscVariation_SD_def primaryVariation_SD_def
      secondaryVariation_SD_def slefVariation_SD_def calculateLEF_SD_def)

lemma calculateALE_SD_factored:
  "calculateALE_SD s =
     calculateLEF_SD s * (calculatePrimaryLoss_SD s + calculateSecondaryLoss_SD s * (slef s / 100))"
  by (simp add: calculateALE_SD_def calculateSLEE_def Let_def)

lemma iteration_ale_SD_within_bounds:
  assumes "nonneg_factors s" and "valid_draws d"
  shows "within_bounds s (iteration_ale_SD s d)"
proof -
  have L: "0 \<le> calculateLEF_SD s"
    using assms(1) by (simp add: nonneg_factors_def calculateLEF_SD_def)
  have P: "0 \<le> calculatePrimaryLoss_SD s"
    using assms(1) by (simp add: nonneg_factors_def calculatePrimaryLoss_SD_def)
  have S: "0 \<le> calculateSecondaryLoss_SD s * (slef s / 100)"
    using assms(1) by (simp add: nonneg_factors_def calculateSecondaryLoss_SD_def)
  have f: "4 / 5 \<le> 0.8 + u_tef d * 0.4" "0.8 + u_tef d * 0.4 \<le> 6 / 5"
    "4 / 5 \<le> 0.8 + u_susc d * 0.4" "0.8 + u_susc d * 0.4 \<le> 6 / 5"
    "4 / 5 \<le> 0.8 + u_primary d * 0.4" "0.8 + u_primary d * 0.4 \<le> 6 / 5"
    "4 / 5 \<le> 0.8 + u_secondary d * 0.4" "0.8 + u_secondary d * 0.4 \<le> 6 / 5"
    "4 / 5 \<le> 0.8 + u_slef d * 0.4" "0.8 + u_slef d * 0.4 \<le> 6 / 5"
    using assms(2) by (simp_all add: valid_draws_def)
  show ?thesis
    unfolding within_bounds_def iteration_ale_SD_factored calculateALE_SD_factored
    using perturbed_product_bounds [OF L P S f] by simp
qed

lemma samples_within_bounds:
  assumes "nonneg_factors s" and "list_all valid_draws ds"
  shows "\<forall>x\<in>set (map (iteration_ale_SD s) ds). within_bounds s x"
  using assms by (auto simp: list_all_iff iteration_ale_SD_within_bounds)

lemma percentile_within_boundsI:
  fixes q :: real
  assumes "0 \<le> q" and "q < 1" and "xs \<noteq> []" and "\<forall>x\<in>set xs. within_bounds s x"
  shows "percentile_within_bounds s (js_index xs (nat \<lfloor>real (length xs) * q\<rfloor>))"
proof -
  have "nat \<lfloor>real (length xs) * q\<rfloor> < length xs"
    using floor_index_less [OF assms(1,2)] assms(3) by simp
  then have "xs ! nat \<lfloor>real (length xs) * q\<rfloor> \<in> set xs" by simp
  then show ?thesis
    using assms(4) by (simp add: percentile_within_bounds_def js_index_floor_defined [OF assms(1-3)])
qed

text \<open>
  C10. For every scenario with non-negative factor values, draws in \<open>[0, 1)\<close> and at
  least one pass, every ALE sample of the client-side Monte Carlo, in ScenarioDetail and
  in the sensitivity analysis alike, lies between 0.4096 and 2.0736 times the
  deterministic ALE, and every percentile read from the samples (P50, P90, P99 of
  ScenarioDetail; P10, P50, P90 of the sensitivity band) is defined and lies between the
  same bounds; in particular P99 is at most 2.0736 times the deterministic ALE.
\<close>

theorem monte_carlo_within_bounds:
  assumes "nonneg_factors s" and "list_all valid_draws ds" and "ds \<noteq> []"
  shows "list_all (within_bounds s) (runMonteCarloSimulation s ds)
       \<and> list_all (within_bounds s) (map (iteration_ale_SA s) ds)
       \<and> percentile_within_bounds s (detail_p50 (runMonteCarloSimulation s ds))
       \<and> percentile_within_bounds s (detail_p90 (runMonteCarloSimulation s ds))
       \<and> percentile_within_bounds s (detail_p99 (runMonteCarloSimulation s ds))
       \<and> percentile_within_bounds s (band_p10 (runMonteCarloForPoint s ds))
       \<and> percentile_within_bounds s (band_p50 (runMonteCarloForPoint s ds))
       \<and> percentile_within_bounds s (band_p90 (runMonteCarloForPoint s ds))"
proof -
  let ?desc = "runMonteCarloSimulation s ds"
  let ?asc = "sort (map (iteration_ale_SA s) ds)"
  have desc: "\<forall>x\<in>set ?desc. within_bounds s x"
    using samples_within_bounds [OF assms(1,2)] by (simp add: runMonteCarloSimulation_def)
  have asc: "\<forall>x\<in>set ?asc. within_bounds s x"
    using samples_within_bounds [OF assms(1,2)] by (simp add: iteration_ale_SA_eq)
  have ne_desc: "?desc \<noteq> []"
    using assms(3) by (simp add: runMonteCarloSimulation_def sort_nonempty)
  have ne_asc: "?asc \<noteq> []"
    using assms(3) by (simp add: sort_nonempty)
  have all: "list_all (within_bounds s) ?desc" using desc by (simp add: list_all_iff)
  have all_sa: "list_all (within_bounds s) (map (iteration_ale_SA s) ds)"
    using asc by (simp add: list_all_iff)
  have d50: "percentile_within_bounds s (detail_p50 ?desc)"
    unfolding detail_p50_def by (rule percentile_within_boundsI [OF _ _ ne_desc desc]) simp_all
  have d90: "percentile_within_bounds s (detail_p90 ?desc)"
    unfolding detail_p90_def by (rule percentile_within_boundsI [OF _ _ ne_desc desc]) simp_all
  have d99: "percentile_within_bounds s (detail_p99 ?desc)"
    unfolding detail_p99_def by (rule percentile_within_boundsI [OF _ _ ne_desc desc]) simp_all
  have b10: "percentile_within_bounds s (band_p10 (runMonteCarloForPoint s ds))"
    unfolding runMonteCarloForPoint_def Let_def
    using percentile_within_boundsI [OF _ _ ne_asc asc, of "0.1"] by simp
  have b50: "percentile_within_bounds s (band_p50 (runMonteCarloForPoint s ds))"
    unfolding runMonteCarloForPoint_def Let_def
    using percentile_within_boundsI [OF _ _ ne_asc asc, of "0.5"] by simp
  have b90: "percentile_within_bounds s (band_p90 (runMonteCarloForPoint s ds))"
    unfolding runMonteCarloForPoint_def Let_def
    using percentile_within_boundsI [OF _ _ ne_asc asc, of "0.9"] by simp
  show ?thesis using all all_sa d50 d90 d99 b10 b50 b90 by blast
qed

text \<open>
  Deterministic ALE 100; the pass with all draws 0 gives 51.2, the pass with all draws
  0.5 gives 100.
\<close>

theorem monte_carlo_within_bounds_witness:
  "nonneg_factors example_scenario \<and> list_all valid_draws [draws_low, draws_mid]
   \<and> [draws_low, draws_mid] \<noteq> []
   \<and> runMonteCarloSimulation example_scenario [draws_low, draws_mid] = [100, 256 / 5]
   \<and> calculateALE_SD example_scenario = 100
   \<and> percentile_within_bounds example_scenario
        (detail_p99 (runMonteCarloSimulation example_scenario [draws_low, draws_mid]))"
  using monte_carlo_within_bounds [of example_scenario "[draws_low, draws_mid]"]
  by (simp add: example_run_defs nonneg_factors_def valid_draws_def calculateALE_SD_def
      calculateLEF_SD_def calculateSLEE_def Let_def)

end
